theory Spec2Isabelle
  imports Main "HOL-Library.Sublist"
begin

section \<open>The onboarding questionnaire (component \<open>Onboarding\<close>)\<close>

subsection \<open>Data model\<close>

text \<open>
  The answers are a \<^verbatim>\<open>Record<string, any>\<close>. The handlers only ever store strings and
  arrays of strings in it, so a value is one of these two shapes; a key that was never
  written reads as \<^verbatim>\<open>undefined\<close>, which is \<open>None\<close> of the map. A JavaScript string is
  modelled as a \<open>string\<close>, one \<open>char\<close> per code point.
\<close>

datatype jsval = VStr string | VList "string list"

text \<open>
  One entry of the constant \<^verbatim>\<open>questions\<close>. The free-text question has no \<^verbatim>\<open>options\<close>
  property; a flag that an entry does not mention is \<^verbatim>\<open>undefined\<close>, which every test of
  the source reads as false.
\<close>

record question_def =
  question :: string
  options :: "string list option"
  key :: string
  singleSelect :: bool
  isOptional :: bool
  isText :: bool

definition questions :: "question_def list" where
  "questions =
    [\<lparr>question = ''What are your primary learning goals?'',
      options = Some [''Improving skills'', ''Preparing for exams'',
                      ''Exploring a new field'', ''Personal growth''],
      key = ''learning_goals'',
      singleSelect = False, isOptional = False, isText = False\<rparr>,
     \<lparr>question = ''Which domain are you most interested in?'',
      options = Some [''Technical: Coding'', ''Technical: AI/ML'',
                      ''Technical: Cybersecurity'', ''Non-Technical: Marketing'',
                      ''Non-Technical: Content Writing'', ''Non-Technical: Management'',
                      ''Non-Technical: Design''],
      key = ''domain_interests'',
      singleSelect = False, isOptional = False, isText = False\<rparr>,
     \<lparr>question = ''What is your preferred learning style?'',
      options = Some [''Video tutorials'', ''Interactive quizzes'', ''Reading'',
                      ''Peer-to-peer learning''],
      key = ''learning_style'',
      singleSelect = False, isOptional = False, isText = False\<rparr>,
     \<lparr>question = ''How much time can you dedicate to learning daily?'',
      options = Some [''Less than 30 minutes'', ''1 hour'', ''2+ hours''],
      key = ''daily_time'',
      singleSelect = True, isOptional = False, isText = False\<rparr>,
     \<lparr>question = ''Are you preparing for any specific certification, exam, or career goal?'',
      options = None,
      key = ''specific_goals'',
      singleSelect = False, isOptional = True, isText = True\<rparr>]"

text \<open>
  The local state of the component: the three \<^verbatim>\<open>useState\<close> cells. The index is a
  JavaScript number, so it is an \<open>int\<close>: nothing in its type keeps it from leaving the
  list.
\<close>

record state =
  currentQuestion :: int
  answers :: "string \<rightharpoonup> jsval"
  loading :: bool

definition initial :: state where
  "initial = \<lparr>currentQuestion = 0, answers = Map.empty, loading = False\<rparr>"

text \<open>
  \<^verbatim>\<open>questions[currentQuestion]\<close>: outside the list the read gives \<^verbatim>\<open>undefined\<close>, and the
  property access that follows it throws a \<^verbatim>\<open>TypeError\<close>.
\<close>

datatype js_exn = TypeError

definition question_at :: "int \<Rightarrow> question_def option" where
  "question_at i =
     (if 0 \<le> i \<and> i < int (length questions) then Some (questions ! nat i) else None)"

subsection \<open>The answer handlers\<close>

text \<open>
  \<^verbatim>\<open>v || []\<close>: \<^verbatim>\<open>undefined\<close> and the empty string are falsy, every array is truthy
  (the empty one too).
\<close>

definition or_empty_list :: "jsval option \<Rightarrow> jsval" where
  "or_empty_list v =
     (case v of
        None \<Rightarrow> VList []
      | Some (VStr s) \<Rightarrow> if s = [] then VList [] else VStr s
      | Some (VList xs) \<Rightarrow> VList xs)"

text \<open>
  \<^verbatim>\<open>currentAnswers.includes(option)\<close>: membership on an array, substring on a string.
\<close>

fun includes_js :: "jsval \<Rightarrow> string \<Rightarrow> bool" where
  "includes_js (VList xs) opt = (opt \<in> set xs)"
| "includes_js (VStr s) opt = sublist opt s"

text \<open>
  The conditional that computes \<^verbatim>\<open>updatedAnswers\<close>. On a string, \<^verbatim>\<open>filter\<close> is not a
  function (a \<^verbatim>\<open>TypeError\<close>), and the spread gives the string's characters.
\<close>

fun updatedAnswers :: "jsval \<Rightarrow> string \<Rightarrow> js_exn + jsval" where
  "updatedAnswers (VList xs) opt =
     Inr (VList (if opt \<in> set xs then filter (\<lambda>a. a \<noteq> opt) xs else xs @ [opt]))"
| "updatedAnswers (VStr s) opt =
     (if sublist opt s then Inl TypeError else Inr (VList (map (\<lambda>c. [c]) s @ [opt])))"

definition handleOptionToggle :: "state \<Rightarrow> string \<Rightarrow> js_exn + state" where
  "handleOptionToggle s opt =
     (case question_at (currentQuestion s) of
        None \<Rightarrow> Inl TypeError
      | Some q \<Rightarrow>
          let currentKey = key q in
          if singleSelect q then
            Inr (s\<lparr>answers := (answers s)(currentKey \<mapsto> VStr opt)\<rparr>)
          else if \<not> isText q then
            (case updatedAnswers (or_empty_list (answers s currentKey)) opt of
               Inl e \<Rightarrow> Inl e
             | Inr v \<Rightarrow> Inr (s\<lparr>answers := (answers s)(currentKey \<mapsto> v)\<rparr>))
          else Inr s)"

definition handleTextInput :: "state \<Rightarrow> string \<Rightarrow> js_exn + state" where
  "handleTextInput s v =
     (case question_at (currentQuestion s) of
        None \<Rightarrow> Inl TypeError
      | Some q \<Rightarrow> Inr (s\<lparr>answers := (answers s)(key q \<mapsto> VStr v)\<rparr>))"

text \<open>
  The \<^verbatim>\<open>checked\<close> property of an option's checkbox: what the component shows as
  selected.
\<close>

definition checked :: "state \<Rightarrow> question_def \<Rightarrow> string \<Rightarrow> bool" where
  "checked s q opt =
     (if singleSelect q then answers s (key q) = Some (VStr opt)
      else includes_js (or_empty_list (answers s (key q))) opt)"

text \<open>
  The calls of \<^verbatim>\<open>handleOptionToggle\<close> made within one render. Every handler of a
  render closes over the answers of that render (\<open>captured\<close>), and \<^verbatim>\<open>setAnswers\<close> is given
  a value, not an updater: each call computes from the captured answers, and of the
  values set the last one is what the next render shows (\<open>pending\<close>, which is the
  captured state as long as no call was made). The \<^verbatim>\<open>onClick\<close> of an option's row and
  the \<^verbatim>\<open>onCheckedChange\<close> of its checkbox are two such calls in one click. A call that
  throws ends the run.
\<close>

fun callsInRender :: "state \<Rightarrow> state \<Rightarrow> string list \<Rightarrow> js_exn + state" where
  "callsInRender captured pending [] = Inr pending"
| "callsInRender captured pending (opt # opts) =
     (case handleOptionToggle captured opt of
        Inl e \<Rightarrow> Inl e
      | Inr s' \<Rightarrow> callsInRender captured s' opts)"

text \<open>
  A sequence of renders, each with the calls made in it: what a render leaves is what
  the next render captures.
\<close>

fun toggleRenders :: "state \<Rightarrow> string list list \<Rightarrow> js_exn + state" where
  "toggleRenders s [] = Inr s"
| "toggleRenders s (calls # rest) =
     (case callsInRender s s calls of
        Inl e \<Rightarrow> Inl e
      | Inr s' \<Rightarrow> toggleRenders s' rest)"

text \<open>A multi-select question: it has options and is neither single-select nor free text.\<close>

definition multiSelect :: "question_def \<Rightarrow> bool" where
  "multiSelect q = (options q \<noteq> None \<and> \<not> singleSelect q \<and> \<not> isText q)"

subsection \<open>The backend, and what a handler does to the outside\<close>

text \<open>
  An error object of the backend client, or one made by \<^verbatim>\<open>new Error(...)\<close>: only its
  \<^verbatim>\<open>message\<close> is read, and that may be missing.
\<close>

datatype js_error = JsError (message: "string option")

datatype session_user = SessionUser (uid: string)

text \<open>A row of \<^verbatim>\<open>profiles\<close>; an object, so always truthy.\<close>

type_synonym profile = "(string \<times> string) list"

text \<open>The row that \<^verbatim>\<open>handleSubmit\<close> inserts into \<^verbatim>\<open>onboarding_responses\<close>.\<close>

record response_row =
  user_id :: string
  learning_goals :: jsval
  domain_interests :: jsval
  learning_style :: jsval
  daily_time :: jsval
  specific_goals :: jsval

text \<open>
  Everything a handler does besides returning, in the order in which it does it: the
  calls to the backend client (with their arguments), the fixed delay, navigation,
  notices, console output and the writes of the loading flag.
\<close>

datatype effect =
    SetLoading bool
  | SignInWithPassword string string
  | GetUser
  | SelectProfile string
  | SignUp string string "string option" "string option"
  | Delay nat
  | InsertOnboardingStatus string bool string
  | InsertOnboardingResponses response_row
  | UpdateOnboardingStatus string bool string
  | Navigate string
  | Toast string "string option" "string option"
  | ConsoleError string

text \<open>
  What the outside answers during one run of a handler: the result of each awaited
  call of the backend client (a handler makes each call at most once) and the clock
  read by \<^verbatim>\<open>new Date().toISOString()\<close>. The handlers are parameterised by it; an
  \<^verbatim>\<open>await\<close> is the point where the handler reads the answer before it goes on.
\<close>

record env =
  signInError :: "js_error option"
  getUser_user :: "session_user option"
  profile_data :: "profile option"
  profileError :: "js_error option"
  signUpError :: "js_error option"
  signUp_user :: "session_user option"
  onboardingError :: "js_error option"
  responseError :: "js_error option"
  statusError :: "js_error option"
  now :: string

text \<open>How a block of statements ends: it runs through, it returns, or it throws.\<close>

datatype completion = Normal | Return | Throw js_error

subsection \<open>Submission\<close>

text \<open>\<^verbatim>\<open>v || ""\<close>.\<close>

definition or_empty_string :: "jsval option \<Rightarrow> jsval" where
  "or_empty_string v =
     (case v of
        None \<Rightarrow> VStr []
      | Some (VStr s) \<Rightarrow> VStr s
      | Some (VList xs) \<Rightarrow> VList xs)"

definition response_of :: "session_user \<Rightarrow> (string \<rightharpoonup> jsval) \<Rightarrow> response_row" where
  "response_of u a =
     \<lparr>user_id = uid u,
      learning_goals = or_empty_list (a ''learning_goals''),
      domain_interests = or_empty_list (a ''domain_interests''),
      learning_style = or_empty_list (a ''learning_style''),
      daily_time = or_empty_string (a ''daily_time''),
      specific_goals = or_empty_string (a ''specific_goals'')\<rparr>"

text \<open>The \<^verbatim>\<open>try\<close> block of \<^verbatim>\<open>handleSubmit\<close>.\<close>

definition submitTry :: "env \<Rightarrow> state \<Rightarrow> effect list \<times> completion" where
  "submitTry b s =
     (case getUser_user b of
        None \<Rightarrow> ([GetUser], Throw (JsError (Some ''No user found'')))
      | Some u \<Rightarrow>
          let ins = InsertOnboardingResponses (response_of u (answers s)) in
          (case responseError b of
             Some e \<Rightarrow> ([GetUser, ins], Throw e)
           | None \<Rightarrow>
               let upd = UpdateOnboardingStatus (uid u) True (now b) in
               (case statusError b of
                  Some e \<Rightarrow> ([GetUser, ins, upd], Throw e)
                | None \<Rightarrow> ([GetUser, ins, upd, Navigate ''/dashboard''], Normal))))"

definition handleSubmit :: "env \<Rightarrow> state \<Rightarrow> state \<times> effect list" where
  "handleSubmit b s =
     (case submitTry b s of
        (t, c) \<Rightarrow>
          (s\<lparr>loading := False\<rparr>,
           [SetLoading True] @ t
           @ (case c of
                Throw e \<Rightarrow> [Toast ''Error'' (message e) (Some ''destructive'')]
              | _ \<Rightarrow> [])
           @ [SetLoading False]))"

subsection \<open>Moving between the questions\<close>

text \<open>
  The two buttons under the question. \<^verbatim>\<open>Previous\<close> is rendered only when
  \<^verbatim>\<open>currentQuestion > 0\<close>; where it is absent nothing can be clicked and the state
  stays. The button on the right is \<^verbatim>\<open>Next\<close> when
  \<^verbatim>\<open>currentQuestion < questions.length - 1\<close> and else \<^verbatim>\<open>Complete\<close>, which calls
  \<^verbatim>\<open>handleSubmit\<close> and is disabled while \<^verbatim>\<open>loading\<close>.
\<close>

definition retreat :: "state \<Rightarrow> state" where
  "retreat s =
     (if currentQuestion s > 0 then s\<lparr>currentQuestion := currentQuestion s - 1\<rparr> else s)"

definition advance :: "env \<Rightarrow> state \<Rightarrow> state \<times> effect list" where
  "advance b s =
     (if currentQuestion s < int (length questions) - 1
      then (s\<lparr>currentQuestion := currentQuestion s + 1\<rparr>, [])
      else if loading s then (s, [])
      else handleSubmit b s)"

text \<open>
  The events of the component. An exception in an event handler leaves the state as it
  was. The answer handlers are taken with any argument at any question, which is more
  than the rendered controls can send.
\<close>

datatype event = OptionToggle string | TextInput string | Retreat | Advance env

fun step :: "state \<Rightarrow> event \<Rightarrow> state" where
  "step s (OptionToggle opt) = (case handleOptionToggle s opt of Inl e \<Rightarrow> s | Inr s' \<Rightarrow> s')"
| "step s (TextInput v) = (case handleTextInput s v of Inl e \<Rightarrow> s | Inr s' \<Rightarrow> s')"
| "step s Retreat = retreat s"
| "step s (Advance b) = fst (advance b s)"

fun run :: "state \<Rightarrow> event list \<Rightarrow> state" where
  "run s [] = s"
| "run s (e # es) = run (step s e) es"

section \<open>The authentication screen (component \<open>Auth\<close>)\<close>

record formData =
  email :: string
  password :: string
  confirmPassword :: "string option"
  username :: "string option"
  fullName :: "string option"

text \<open>\<^verbatim>\<open>toLowerCase\<close>, on the ASCII letters.\<close>

definition lower_char :: "char \<Rightarrow> char" where
  "lower_char c =
     (let n = (of_char c :: nat) in if 65 \<le> n \<and> n \<le> 90 then char_of (n + 32) else c)"

definition toLowerCase :: "string \<Rightarrow> string" where
  "toLowerCase s = map lower_char s"

text \<open>\<^verbatim>\<open>error.message || d\<close>: a missing and an empty message are falsy.\<close>

definition message_or :: "js_error \<Rightarrow> string \<Rightarrow> string" where
  "message_or e d = (case message e of None \<Rightarrow> d | Some m \<Rightarrow> if m = [] then d else m)"

text \<open>The sign-in branch of the outer \<^verbatim>\<open>try\<close> block.\<close>

definition signInFlow :: "env \<Rightarrow> formData \<Rightarrow> effect list \<times> completion" where
  "signInFlow b f =
     (let call = SignInWithPassword (email f) (password f) in
      case signInError b of
        Some e \<Rightarrow> ([call], Throw e)
      | None \<Rightarrow>
          (case getUser_user b of
             None \<Rightarrow> ([call, GetUser], Throw (JsError (Some ''No user found after login'')))
           | Some u \<Rightarrow>
               let sel = SelectProfile (uid u) in
               (case profileError b of
                  Some pe \<Rightarrow>
                    ([call, GetUser, sel, ConsoleError ''Error fetching profile:''],
                     Throw (JsError (Some ''Failed to verify user profile'')))
                | None \<Rightarrow>
                    (case profile_data b of
                       None \<Rightarrow>
                         ([call, GetUser, sel],
                          Throw (JsError (Some ''Profile not found. Please contact support.'')))
                     | Some p \<Rightarrow>
                         ([call, GetUser, sel, Navigate ''/dashboard''], Normal)))))"

text \<open>The inner \<^verbatim>\<open>try\<close> block of the sign-up branch.\<close>

definition signUpTry :: "env \<Rightarrow> formData \<Rightarrow> effect list \<times> completion" where
  "signUpTry b f =
     (let call = SignUp (email f) (password f) (username f) (fullName f) in
      case signUpError b of
        Some e \<Rightarrow> ([call], Throw e)
      | None \<Rightarrow>
          (case signUp_user b of
             None \<Rightarrow> ([call], Normal)
           | Some u \<Rightarrow>
               let ins = InsertOnboardingStatus (uid u) False (now b) in
               (case onboardingError b of
                  Some oe \<Rightarrow>
                    ([call, Delay 2000, ins, ConsoleError ''Error creating onboarding status:''],
                     Throw (JsError (Some ''Failed to initialize onboarding'')))
                | None \<Rightarrow>
                    ([call, Delay 2000, ins,
                      Toast ''Success''
                        (Some ''Account created successfully! Please check your email to verify your account.'')
                        None,
                      Navigate ''/onboarding''],
                     Normal))))"

text \<open>The test of the inner \<^verbatim>\<open>catch\<close>: is the error due to the user already existing?\<close>

definition userAlreadyExists :: "js_error \<Rightarrow> bool" where
  "userAlreadyExists e =
     (case message e of
        None \<Rightarrow> False
      | Some m \<Rightarrow>
          sublist ''User already registered'' m \<or> sublist ''already exists'' (toLowerCase m))"

text \<open>The sign-up branch: the inner \<^verbatim>\<open>try\<close> with its \<^verbatim>\<open>catch\<close>.\<close>

definition signUpFlow :: "env \<Rightarrow> formData \<Rightarrow> effect list \<times> completion" where
  "signUpFlow b f =
     (case signUpTry b f of
        (t, Throw e) \<Rightarrow>
          if userAlreadyExists e then
            (t @ [Toast ''Account Exists''
                    (Some ''An account with this email already exists. Please sign in instead.'')
                    (Some ''destructive'')],
             Return)
          else (t, Throw e)
      | (t, c) \<Rightarrow> (t, c))"

text \<open>
  \<^verbatim>\<open>handleAuth\<close>: the outer \<^verbatim>\<open>try\<close>, its \<^verbatim>\<open>catch\<close> (the generic handler) and its
  \<^verbatim>\<open>finally\<close>.
\<close>

definition handleAuth :: "env \<Rightarrow> formData \<Rightarrow> bool \<Rightarrow> effect list" where
  "handleAuth b f isLogin =
     (case (if isLogin then signInFlow b f else signUpFlow b f) of
        (t, c) \<Rightarrow>
          [SetLoading True] @ t
          @ (case c of
               Throw e \<Rightarrow>
                 [ConsoleError ''Auth error:'',
                  Toast ''Error''
                    (Some (message_or e ''An error occurred during authentication''))
                    (Some ''destructive'')]
             | _ \<Rightarrow> [])
          @ [SetLoading False])"

section \<open>Sample inputs\<close>

text \<open>
  A backend in which every call succeeds, and a filled-in form. The concrete instances
  of the theorems below are taken at them and at variants of them.
\<close>

definition sample_env :: env where
  "sample_env =
     \<lparr>signInError = None, getUser_user = Some (SessionUser ''u1''),
      profile_data = Some [(''id'', ''u1'')], profileError = None,
      signUpError = None, signUp_user = Some (SessionUser ''u1''),
      onboardingError = None, responseError = None, statusError = None,
      now = ''2025-01-01T00:00:00.000Z''\<rparr>"

definition sample_form :: formData where
  "sample_form =
     \<lparr>email = ''ada@example.org'', password = ''secret'', confirmPassword = Some ''secret'',
      username = Some ''ada'', fullName = Some ''Ada L''\<rparr>"

section \<open>Properties of the answer handlers\<close>

lemma toggle_multi:
  assumes "question_at (currentQuestion s) = Some q" and "multiSelect q"
    and "or_empty_list (answers s (key q)) = VList xs"
  shows "handleOptionToggle s opt =
           Inr (s\<lparr>answers := (answers s)(key q \<mapsto>
                 VList (if opt \<in> set xs then filter (\<lambda>a. a \<noteq> opt) xs else xs @ [opt]))\<rparr>)"
  using assms by (simp add: handleOptionToggle_def multiSelect_def)

lemma length_questions: "length questions = 5"
  by (simp add: questions_def)

lemma callsInRender_multi:
  assumes "question_at (currentQuestion s) = Some q" and "multiSelect q"
    and "or_empty_list (answers s (key q)) = VList xs"
  shows "callsInRender s p cs =
           Inr (if cs = [] then p
                else s\<lparr>answers := (answers s)(key q \<mapsto>
                       VList (if last cs \<in> set xs then filter (\<lambda>a. a \<noteq> last cs) xs
                              else xs @ [last cs]))\<rparr>)"
proof (induction cs arbitrary: p)
  case Nil
  show ?case by simp
next
  case (Cons c cs)
  show ?case
    unfolding callsInRender.simps toggle_multi [OF assms] Cons.IH by simp
qed

lemma last_of_single_calls:
  "map last (filter (\<lambda>cs. cs \<noteq> []) (map (\<lambda>opt. [opt]) opts)) = opts"
  by (induction opts) simp_all

lemma toggleRenders_multi:
  assumes "question_at (currentQuestion s) = Some q" and "multiSelect q"
    and "or_empty_list (answers s (key q)) = VList xs" and "distinct xs"
  shows "\<exists>s' ys. toggleRenders s rs = Inr s'
           \<and> or_empty_list (answers s' (key q)) = VList ys \<and> distinct ys
           \<and> (map last (filter (\<lambda>cs. cs \<noteq> []) rs) \<noteq> [] \<longrightarrow>
                 answers s' (key q) = Some (VList ys))
           \<and> (map last (filter (\<lambda>cs. cs \<noteq> []) rs) = [] \<longrightarrow> s' = s)
           \<and> set ys = {opt. (opt \<in> set xs)
                              \<noteq> odd (count_list (map last (filter (\<lambda>cs. cs \<noteq> []) rs)) opt)}"
  using assms
proof (induction rs arbitrary: s xs)
  case Nil
  then show ?case by simp
next
  case (Cons r rs)
  show ?case
  proof (cases "r = []")
    case True
    with Cons.IH [OF Cons.prems] show ?thesis by simp
  next
    case False
    let ?a = "last r"
    let ?xs' = "if ?a \<in> set xs then filter (\<lambda>b. b \<noteq> ?a) xs else xs @ [?a]"
    let ?s1 = "s\<lparr>answers := (answers s)(key q \<mapsto> VList ?xs')\<rparr>"
    let ?eff = "map last (filter (\<lambda>cs. cs \<noteq> []) rs)"
    have render: "callsInRender s s r = Inr ?s1"
      using callsInRender_multi [OF Cons.prems(1-3), of s r] False by simp
    have q1: "question_at (currentQuestion ?s1) = Some q"
      using Cons.prems(1) by simp
    have v1: "or_empty_list (answers ?s1 (key q)) = VList ?xs'"
      by (simp add: or_empty_list_def)
    have d1: "distinct ?xs'"
      using Cons.prems(4) by simp
    from Cons.IH [OF q1 Cons.prems(2) v1 d1]
    obtain s' ys where run: "toggleRenders ?s1 rs = Inr s'"
      and val: "or_empty_list (answers s' (key q)) = VList ys" and dis: "distinct ys"
      and ne: "?eff \<noteq> [] \<longrightarrow> answers s' (key q) = Some (VList ys)"
      and em: "?eff = [] \<longrightarrow> s' = ?s1"
      and mem: "set ys = {opt. (opt \<in> set ?xs') \<noteq> odd (count_list ?eff opt)}"
      by blast
    have stored: "answers s' (key q) = Some (VList ys)"
    proof (cases "?eff = []")
      case True
      with em val show ?thesis by (simp add: or_empty_list_def)
    next
      case False
      with ne show ?thesis by simp
    qed
    have mem': "set ys = {opt. (opt \<in> set xs) \<noteq> odd (count_list (?a # ?eff) opt)}"
      unfolding mem by auto
    have "toggleRenders s (r # rs) = Inr s'"
      using render run by simp
    then show ?thesis
      using val dis stored mem' False by auto
  qed
qed

text \<open>
  Claim C1, as it is stated, is about every sequence of calls. Two calls made within
  one render (the \<^verbatim>\<open>onClick\<close> of a row and the \<^verbatim>\<open>onCheckedChange\<close> of its checkbox, in
  one click) both compute from the answers that render has captured: from the empty
  answers both set the list with the one option, so the option is selected although
  it was toggled twice.
\<close>

theorem toggle_twice_in_one_render_counterexample:
  "toggleRenders initial [[''Improving skills'', ''Improving skills'']]
     = Inr (initial\<lparr>answers :=
              (answers initial)(''learning_goals'' \<mapsto> VList [''Improving skills''])\<rparr>)
   \<and> checked (initial\<lparr>answers :=
                 (answers initial)(''learning_goals'' \<mapsto> VList [''Improving skills''])\<rparr>)
        (questions ! 0) ''Improving skills''
   \<and> \<not> odd (count_list [''Improving skills'', ''Improving skills''] ''Improving skills'')"
  by (simp add: handleOptionToggle_def question_at_def initial_def questions_def
      or_empty_list_def checked_def)

text \<open>
  Claim C1, amended. On a multi-select question, starting from the empty answers, no
  call of \<^verbatim>\<open>handleOptionToggle\<close> throws. When each call is made in a render of its own,
  that is on the answers the call before it has set, the options shown as selected
  after a sequence of calls are exactly those toggled an odd number of times, and the
  value stored under the question's key is an array without duplicates of exactly
  these options (the key is still unset when the sequence is empty). In general a
  render counts once, by the last call made in it: the options shown as selected are
  those that were the last call of a render an odd number of times.
\<close>

theorem toggle_renders_odd_parity:
  assumes "question_at (currentQuestion s) = Some q" and "multiSelect q"
    and "answers s = Map.empty"
  shows "(\<exists>s'. toggleRenders s (map (\<lambda>opt. [opt]) opts) = Inr s'
            \<and> (\<forall>opt. checked s' q opt \<longleftrightarrow> odd (count_list opts opt))
            \<and> (case answers s' (key q) of
                  None \<Rightarrow> opts = []
                | Some v \<Rightarrow> \<exists>ys. v = VList ys \<and> distinct ys
                             \<and> set ys = {opt. odd (count_list opts opt)}))
         \<and> (\<exists>s'. toggleRenders s rs = Inr s'
            \<and> (\<forall>opt. checked s' q opt
                   \<longleftrightarrow> odd (count_list (map last (filter (\<lambda>cs. cs \<noteq> []) rs)) opt)))"
proof -
  have v0: "or_empty_list (answers s (key q)) = VList []"
    using assms(3) by (simp add: or_empty_list_def)
  have single: "\<exists>s'. toggleRenders s (map (\<lambda>opt. [opt]) opts) = Inr s'
            \<and> (\<forall>opt. checked s' q opt \<longleftrightarrow> odd (count_list opts opt))
            \<and> (case answers s' (key q) of
                  None \<Rightarrow> opts = []
                | Some v \<Rightarrow> \<exists>ys. v = VList ys \<and> distinct ys
                             \<and> set ys = {opt. odd (count_list opts opt)})"
  proof -
    from toggleRenders_multi [OF assms(1,2) v0, of "map (\<lambda>opt. [opt]) opts"]
    obtain s' ys where run: "toggleRenders s (map (\<lambda>opt. [opt]) opts) = Inr s'"
      and val: "or_empty_list (answers s' (key q)) = VList ys" and dis: "distinct ys"
      and ne: "opts \<noteq> [] \<longrightarrow> answers s' (key q) = Some (VList ys)"
      and em: "opts = [] \<longrightarrow> s' = s"
      and mem: "set ys = {opt. (opt \<in> set []) \<noteq> odd (count_list opts opt)}"
      unfolding last_of_single_calls by auto
    have mem': "set ys = {opt. odd (count_list opts opt)}"
      using mem by simp
    have chk: "\<forall>opt. checked s' q opt \<longleftrightarrow> odd (count_list opts opt)"
      using assms(2) val mem' by (simp add: checked_def multiSelect_def)
    have shape: "(case answers s' (key q) of
                   None \<Rightarrow> opts = []
                 | Some v \<Rightarrow> \<exists>ys. v = VList ys \<and> distinct ys
                              \<and> set ys = {opt. odd (count_list opts opt)})"
    proof (cases "opts = []")
      case True
      with em assms(3) show ?thesis by simp
    next
      case False
      with ne dis mem' show ?thesis by simp
    qed
    from run chk shape show ?thesis by blast
  qed
  have general: "\<exists>s'. toggleRenders s rs = Inr s'
            \<and> (\<forall>opt. checked s' q opt
                   \<longleftrightarrow> odd (count_list (map last (filter (\<lambda>cs. cs \<noteq> []) rs)) opt))"
  proof -
    from toggleRenders_multi [OF assms(1,2) v0, of rs]
    obtain s' ys where run: "toggleRenders s rs = Inr s'"
      and val: "or_empty_list (answers s' (key q)) = VList ys"
      and mem: "set ys = {opt. (opt \<in> set [])
                   \<noteq> odd (count_list (map last (filter (\<lambda>cs. cs \<noteq> []) rs)) opt)}"
      by auto
    have "\<forall>opt. checked s' q opt
             \<longleftrightarrow> odd (count_list (map last (filter (\<lambda>cs. cs \<noteq> []) rs)) opt)"
      using assms(2) val mem by (simp add: checked_def multiSelect_def)
    with run show ?thesis by blast
  qed
  from single general show ?thesis by blast
qed

theorem toggle_renders_odd_parity_witness:
  "question_at (currentQuestion initial) = Some (questions ! 0)
   \<and> multiSelect (questions ! 0) \<and> answers initial = Map.empty
   \<and> (\<exists>s'. toggleRenders initial [[''Reading''], [''1 hour''], [''Reading'']] = Inr s'
           \<and> (\<forall>opt. checked s' (questions ! 0) opt
                  \<longleftrightarrow> odd (count_list [''Reading'', ''1 hour'', ''Reading''] opt))
           \<and> (case answers s' (key (questions ! 0)) of
                 None \<Rightarrow> [''Reading'', ''1 hour'', ''Reading''] = []
               | Some v \<Rightarrow> \<exists>ys. v = VList ys \<and> distinct ys
                   \<and> set ys = {opt. odd (count_list [''Reading'', ''1 hour'', ''Reading''] opt)}))
   \<and> (\<exists>s'. toggleRenders initial [[''Reading'', ''Reading''], [], [''1 hour'']] = Inr s'
           \<and> (\<forall>opt. checked s' (questions ! 0) opt
                  \<longleftrightarrow> odd (count_list [''Reading'', ''1 hour''] opt)))"
proof -
  have h1: "question_at (currentQuestion initial) = Some (questions ! 0)"
    by (simp add: question_at_def initial_def length_questions)
  have h2: "multiSelect (questions ! 0)"
    by (simp add: multiSelect_def questions_def)
  have h3: "answers initial = Map.empty"
    by (simp add: initial_def)
  from toggle_renders_odd_parity [OF h1 h2 h3, of "[''Reading'', ''1 hour'', ''Reading'']"
      "[[''Reading'', ''Reading''], [], [''1 hour'']]"] h1 h2 h3
  show ?thesis by simp
qed

text \<open>
  Claim C2. On a single-select question \<^verbatim>\<open>handleOptionToggle\<close> replaces the stored answer:
  after a call with \<open>a\<close> and then a call with \<open>b\<close>, the value under the question's key is
  the string \<open>b\<close>, the only option shown as selected is \<open>b\<close>, and \<open>a\<close> and \<open>b\<close> are both
  selected only when they are the same option.
\<close>

theorem single_select_replaces:
  assumes "question_at (currentQuestion s) = Some q" and "singleSelect q"
  shows "\<exists>s1 s2. handleOptionToggle s a = Inr s1 \<and> handleOptionToggle s1 b = Inr s2
           \<and> answers s2 (key q) = Some (VStr b)
           \<and> (\<forall>opt. checked s2 q opt \<longleftrightarrow> opt = b)
           \<and> (checked s2 q a \<and> checked s2 q b \<longrightarrow> a = b)"
  using assms by (auto simp: handleOptionToggle_def checked_def)

theorem single_select_replaces_witness:
  "question_at (currentQuestion (initial\<lparr>currentQuestion := 3\<rparr>)) = Some (questions ! 3)
   \<and> singleSelect (questions ! 3)
   \<and> (\<exists>s1 s2. handleOptionToggle (initial\<lparr>currentQuestion := 3\<rparr>) ''1 hour'' = Inr s1
         \<and> handleOptionToggle s1 ''2+ hours'' = Inr s2
         \<and> answers s2 (key (questions ! 3)) = Some (VStr ''2+ hours'')
         \<and> (\<forall>opt. checked s2 (questions ! 3) opt \<longleftrightarrow> opt = ''2+ hours'')
         \<and> (checked s2 (questions ! 3) ''1 hour'' \<and> checked s2 (questions ! 3) ''2+ hours''
              \<longrightarrow> ''1 hour'' = ''2+ hours''))"
proof -
  have h1: "question_at (currentQuestion (initial\<lparr>currentQuestion := 3\<rparr>)) = Some (questions ! 3)"
    by (simp add: question_at_def length_questions)
  have h2: "singleSelect (questions ! 3)"
    by (simp add: questions_def)
  from single_select_replaces [OF h1 h2, of "''1 hour''" "''2+ hours''"] h1 h2
  show ?thesis by blast
qed

section \<open>The question index\<close>

lemma handleOptionToggle_frame:
  assumes "handleOptionToggle s opt = Inr s'"
  shows "currentQuestion s' = currentQuestion s \<and> loading s' = loading s"
  using assms
  by (auto simp: handleOptionToggle_def Let_def split: option.splits if_splits sum.splits)

lemma handleTextInput_frame:
  assumes "handleTextInput s v = Inr s'"
  shows "currentQuestion s' = currentQuestion s \<and> loading s' = loading s"
  using assms
  by (auto simp: handleTextInput_def split: option.splits)

lemma handleSubmit_state: "fst (handleSubmit b s) = s\<lparr>loading := False\<rparr>"
  by (simp add: handleSubmit_def split: prod.splits)

lemma step_index:
  assumes "0 \<le> currentQuestion s" and "currentQuestion s < int (length questions)"
    and "\<not> loading s"
  shows "0 \<le> currentQuestion (step s e) \<and> currentQuestion (step s e) < int (length questions)
         \<and> \<not> loading (step s e)"
proof (cases e)
  case (OptionToggle opt)
  then show ?thesis using assms
    by (auto split: sum.splits dest: handleOptionToggle_frame)
next
  case (TextInput v)
  then show ?thesis using assms
    by (auto split: sum.splits dest: handleTextInput_frame)
next
  case Retreat
  then show ?thesis using assms by (auto simp: retreat_def)
next
  case (Advance b)
  then show ?thesis using assms by (auto simp: advance_def handleSubmit_state)
qed

lemma run_index:
  assumes "0 \<le> currentQuestion s" and "currentQuestion s < int (length questions)"
    and "\<not> loading s"
  shows "0 \<le> currentQuestion (run s es) \<and> currentQuestion (run s es) < int (length questions)
         \<and> \<not> loading (run s es)"
  using assms
proof (induction es arbitrary: s)
  case Nil
  then show ?case by simp
next
  case (Cons e es)
  from step_index [OF Cons.prems, of e] Cons.IH [of "step s e"]
  show ?case by simp
qed

text \<open>
  Claim C3. In every state \<open>s\<close> that the component reaches from its initial state by a
  sequence of events (answer events, \<^verbatim>\<open>Previous\<close>, and the button on the right with any
  answers of the backend; a submission runs to its end before the next event), the
  index lies in \<open>[0, N - 1]\<close> for the \<open>N\<close> questions. At index \<open>0\<close> retreating leaves the
  state as it is; at a larger index it lowers the index by one. At the last index
  advancing is \<^verbatim>\<open>handleSubmit\<close> and keeps the index; below it, advancing raises the
  index by one and does nothing else.
\<close>

theorem index_stays_in_range:
  assumes "s = run initial es"
  shows "0 \<le> currentQuestion s \<and> currentQuestion s \<le> int (length questions) - 1
         \<and> (currentQuestion s = 0 \<longrightarrow> retreat s = s)
         \<and> (0 < currentQuestion s \<longrightarrow>
               retreat s = s\<lparr>currentQuestion := currentQuestion s - 1\<rparr>)
         \<and> (currentQuestion s = int (length questions) - 1 \<longrightarrow>
               advance b s = handleSubmit b s
               \<and> currentQuestion (fst (advance b s)) = currentQuestion s)
         \<and> (currentQuestion s < int (length questions) - 1 \<longrightarrow>
               advance b s = (s\<lparr>currentQuestion := currentQuestion s + 1\<rparr>, []))"
proof -
  have "0 \<le> currentQuestion initial" and "currentQuestion initial < int (length questions)"
    and "\<not> loading initial"
    by (simp_all add: initial_def length_questions)
  from run_index [OF this, of es] assms
  have inv: "0 \<le> currentQuestion s" "currentQuestion s < int (length questions)" "\<not> loading s"
    by simp_all
  show ?thesis
    using inv by (simp add: retreat_def advance_def handleSubmit_state)
qed

theorem index_stays_in_range_witness:
  "currentQuestion (run initial [Advance sample_env, Advance sample_env, Retreat]) = 1
   \<and> retreat (run initial [Advance sample_env, Advance sample_env, Retreat])
       = (run initial [Advance sample_env, Advance sample_env, Retreat])\<lparr>currentQuestion := 0\<rparr>
   \<and> advance sample_env (run initial [Advance sample_env, Advance sample_env, Retreat])
       = ((run initial [Advance sample_env, Advance sample_env, Retreat])\<lparr>currentQuestion := 2\<rparr>, [])
   \<and> currentQuestion (run initial []) = 0
   \<and> retreat (run initial []) = run initial []
   \<and> currentQuestion (run initial (replicate 4 (Advance sample_env))) = int (length questions) - 1
   \<and> advance sample_env (run initial (replicate 4 (Advance sample_env)))
       = handleSubmit sample_env (run initial (replicate 4 (Advance sample_env)))"
proof -
  let ?es = "[Advance sample_env, Advance sample_env, Retreat]"
  let ?fs = "replicate 4 (Advance sample_env)"
  have c: "currentQuestion (run initial ?es) = 1"
    by (simp add: initial_def advance_def retreat_def length_questions)
  have c0: "currentQuestion (run initial []) = 0"
    by (simp add: initial_def)
  have c4: "currentQuestion (run initial ?fs) = int (length questions) - 1"
    by (simp add: initial_def advance_def length_questions numeral_eq_Suc)
  have mid: "retreat (run initial ?es) = (run initial ?es)\<lparr>currentQuestion := 0\<rparr>
             \<and> advance sample_env (run initial ?es) = ((run initial ?es)\<lparr>currentQuestion := 2\<rparr>, [])"
    using index_stays_in_range [OF refl, of ?es sample_env]
    unfolding c length_questions by simp
  have first: "retreat (run initial []) = run initial []"
    using index_stays_in_range [OF refl, of "[]" sample_env] c0 by blast
  have last: "advance sample_env (run initial ?fs) = handleSubmit sample_env (run initial ?fs)"
    using index_stays_in_range [OF refl, of ?fs sample_env] c4 by blast
  from c c0 c4 mid first last show ?thesis by blast
qed

text \<open>
  Claim C10. Retreating and advancing leave the answers as they are; retreating, and
  advancing below the last index, change nothing but the index. A call of
  \<^verbatim>\<open>handleOptionToggle\<close> or \<^verbatim>\<open>handleTextInput\<close> that returns changes nothing but the
  answers, and in the answers nothing but the value under the key of the current
  question; a call that throws changes nothing at all, so the two answer events change
  at most the answers.
\<close>

theorem navigation_and_answers_frames:
  "answers (retreat s) = answers s
   \<and> retreat s = s\<lparr>currentQuestion := currentQuestion (retreat s)\<rparr>
   \<and> answers (fst (advance b s)) = answers s
   \<and> (currentQuestion s < int (length questions) - 1 \<longrightarrow>
        advance b s = (s\<lparr>currentQuestion := currentQuestion s + 1\<rparr>, []))
   \<and> (\<forall>s'. handleOptionToggle s opt = Inr s' \<longrightarrow>
         s' = s\<lparr>answers := answers s'\<rparr>
         \<and> (\<exists>q. question_at (currentQuestion s) = Some q
                \<and> (\<forall>k. k \<noteq> key q \<longrightarrow> answers s' k = answers s k)))
   \<and> (\<forall>s'. handleTextInput s v = Inr s' \<longrightarrow>
         s' = s\<lparr>answers := answers s'\<rparr>
         \<and> (\<exists>q. question_at (currentQuestion s) = Some q
                \<and> (\<forall>k. k \<noteq> key q \<longrightarrow> answers s' k = answers s k)))
   \<and> step s (OptionToggle opt) = s\<lparr>answers := answers (step s (OptionToggle opt))\<rparr>
   \<and> step s (TextInput v) = s\<lparr>answers := answers (step s (TextInput v))\<rparr>"
proof -
  have r: "answers (retreat s) = answers s
           \<and> retreat s = s\<lparr>currentQuestion := currentQuestion (retreat s)\<rparr>"
    by (simp add: retreat_def)
  have a: "answers (fst (advance b s)) = answers s"
    by (simp add: advance_def handleSubmit_state)
  have n: "currentQuestion s < int (length questions) - 1 \<longrightarrow>
        advance b s = (s\<lparr>currentQuestion := currentQuestion s + 1\<rparr>, [])"
    by (simp add: advance_def)
  have t: "\<forall>s'. handleOptionToggle s opt = Inr s' \<longrightarrow>
         s' = s\<lparr>answers := answers s'\<rparr>
         \<and> (\<exists>q. question_at (currentQuestion s) = Some q
                \<and> (\<forall>k. k \<noteq> key q \<longrightarrow> answers s' k = answers s k))"
    by (auto simp: handleOptionToggle_def Let_def split: option.splits if_splits sum.splits)
  have x: "\<forall>s'. handleTextInput s v = Inr s' \<longrightarrow>
         s' = s\<lparr>answers := answers s'\<rparr>
         \<and> (\<exists>q. question_at (currentQuestion s) = Some q
                \<and> (\<forall>k. k \<noteq> key q \<longrightarrow> answers s' k = answers s k))"
    by (auto simp: handleTextInput_def split: option.splits)
  have st: "step s (OptionToggle opt) = s\<lparr>answers := answers (step s (OptionToggle opt))\<rparr>"
    using t by (cases "handleOptionToggle s opt") auto
  have sx: "step s (TextInput v) = s\<lparr>answers := answers (step s (TextInput v))\<rparr>"
    using x by (cases "handleTextInput s v") auto
  from r a n t x st sx show ?thesis by blast
qed

theorem navigation_and_answers_frames_witness:
  "currentQuestion initial < int (length questions) - 1
   \<and> advance sample_env initial = (initial\<lparr>currentQuestion := 1\<rparr>, [])
   \<and> handleOptionToggle initial ''Reading''
       = Inr (initial\<lparr>answers := [''learning_goals'' \<mapsto> VList [''Reading'']]\<rparr>)
   \<and> question_at (currentQuestion initial) = Some (questions ! 0)
   \<and> answers (initial\<lparr>answers := [''learning_goals'' \<mapsto> VList [''Reading'']]\<rparr>) ''daily_time''
       = answers initial ''daily_time''
   \<and> handleTextInput (initial\<lparr>currentQuestion := 4\<rparr>) ''CISSP''
       = Inr (initial\<lparr>currentQuestion := 4, answers := [''specific_goals'' \<mapsto> VStr ''CISSP'']\<rparr>)
   \<and> currentQuestion (initial\<lparr>currentQuestion := 4, answers := [''specific_goals'' \<mapsto> VStr ''CISSP'']\<rparr>)
       = currentQuestion (initial\<lparr>currentQuestion := 4\<rparr>)"
proof -
  let ?s1 = "initial\<lparr>answers := [''learning_goals'' \<mapsto> VList [''Reading'']]\<rparr>"
  let ?s4 = "initial\<lparr>currentQuestion := 4\<rparr>"
  let ?s5 = "initial\<lparr>currentQuestion := 4, answers := [''specific_goals'' \<mapsto> VStr ''CISSP'']\<rparr>"
  have lt: "currentQuestion initial < int (length questions) - 1"
    by (simp add: initial_def length_questions)
  have q0: "question_at (currentQuestion initial) = Some (questions ! 0)"
    by (simp add: question_at_def initial_def length_questions)
  have tg: "handleOptionToggle initial ''Reading'' = Inr ?s1"
    by (simp add: handleOptionToggle_def question_at_def initial_def questions_def
        or_empty_list_def)
  have tx: "handleTextInput ?s4 ''CISSP'' = Inr ?s5"
    by (simp add: handleTextInput_def question_at_def initial_def questions_def)
  note fr = navigation_and_answers_frames [of initial sample_env "''Reading''" "''CISSP''"]
  note fr4 = navigation_and_answers_frames [of ?s4 sample_env "''Reading''" "''CISSP''"]
  have adv: "advance sample_env initial = (initial\<lparr>currentQuestion := 1\<rparr>, [])"
    using fr lt by (simp add: initial_def)
  have k: "answers ?s1 ''daily_time'' = answers initial ''daily_time''"
    using fr tg q0 by (auto simp: questions_def)
  have i: "currentQuestion ?s5 = currentQuestion ?s4"
    using fr4 tx by simp
  from lt adv tg q0 k tx i show ?thesis by blast
qed

section \<open>Submission\<close>

text \<open>
  Claim C4. The row that \<^verbatim>\<open>handleSubmit\<close> inserts for the session user \<open>u\<close> is
  \<open>response_of u\<close> of the answers, and it is inserted whatever the answers are. In this
  row a key that was never answered has its empty value: the empty list for
  \<^verbatim>\<open>learning_goals\<close>, \<^verbatim>\<open>domain_interests\<close> and \<^verbatim>\<open>learning_style\<close>, the empty string for
  \<^verbatim>\<open>daily_time\<close> and \<^verbatim>\<open>specific_goals\<close>. No error comes from the answers: when the body of
  \<^verbatim>\<open>handleSubmit\<close> throws, there is no session user or the error is the one the insert
  or the update returned.
\<close>

theorem submit_defaults_unanswered:
  "(getUser_user b = Some u \<longrightarrow>
      (\<exists>t. snd (handleSubmit b s)
             = SetLoading True # GetUser # InsertOnboardingResponses (response_of u (answers s)) # t))
   \<and> user_id (response_of u a) = uid u
   \<and> (a ''learning_goals'' = None \<longrightarrow> learning_goals (response_of u a) = VList [])
   \<and> (a ''domain_interests'' = None \<longrightarrow> domain_interests (response_of u a) = VList [])
   \<and> (a ''learning_style'' = None \<longrightarrow> learning_style (response_of u a) = VList [])
   \<and> (a ''daily_time'' = None \<longrightarrow> daily_time (response_of u a) = VStr '''')
   \<and> (a ''specific_goals'' = None \<longrightarrow> specific_goals (response_of u a) = VStr '''')
   \<and> (\<forall>e. snd (submitTry b s) = Throw e \<longrightarrow>
          (getUser_user b = None \<and> e = JsError (Some ''No user found''))
          \<or> responseError b = Some e \<or> statusError b = Some e)"
  by (auto simp: handleSubmit_def submitTry_def response_of_def or_empty_list_def
      or_empty_string_def Let_def split: option.splits)

theorem submit_defaults_unanswered_witness:
  "getUser_user sample_env = Some (SessionUser ''u1'')
   \<and> answers initial ''daily_time'' = None
   \<and> snd (handleSubmit sample_env initial)
       = [SetLoading True, GetUser,
          InsertOnboardingResponses
            \<lparr>user_id = ''u1'', learning_goals = VList [], domain_interests = VList [],
             learning_style = VList [], daily_time = VStr '''', specific_goals = VStr ''''\<rparr>,
          UpdateOnboardingStatus ''u1'' True ''2025-01-01T00:00:00.000Z'',
          Navigate ''/dashboard'', SetLoading False]
   \<and> daily_time (response_of (SessionUser ''u1'') (answers initial)) = VStr ''''
   \<and> learning_goals (response_of (SessionUser ''u1'') (answers initial)) = VList []"
proof -
  have h: "getUser_user sample_env = Some (SessionUser ''u1'')"
    by (simp add: sample_env_def)
  have a: "answers initial ''daily_time'' = None" "answers initial ''learning_goals'' = None"
    by (simp_all add: initial_def)
  have tr: "snd (handleSubmit sample_env initial)
       = [SetLoading True, GetUser,
          InsertOnboardingResponses
            \<lparr>user_id = ''u1'', learning_goals = VList [], domain_interests = VList [],
             learning_style = VList [], daily_time = VStr '''', specific_goals = VStr ''''\<rparr>,
          UpdateOnboardingStatus ''u1'' True ''2025-01-01T00:00:00.000Z'',
          Navigate ''/dashboard'', SetLoading False]"
    by (simp add: handleSubmit_def submitTry_def sample_env_def initial_def response_of_def
        or_empty_list_def or_empty_string_def)
  from submit_defaults_unanswered [of sample_env "SessionUser ''u1''" initial "answers initial"] h a tr
  show ?thesis by blast
qed

text \<open>
  Claim C5, as it is stated, says that \<^verbatim>\<open>handleSubmit\<close> issues exactly one insert. When
  the backend reports no session user, \<^verbatim>\<open>handleSubmit\<close> stops at its guard
  \<^verbatim>\<open>if (!user) throw new Error("No user found")\<close>: it issues no insert and no update, and
  shows the notice of the error.
\<close>

theorem submit_without_user_counterexample:
  "snd (handleSubmit (sample_env\<lparr>getUser_user := None\<rparr>) initial)
     = [SetLoading True, GetUser,
        Toast ''Error'' (Some ''No user found'') (Some ''destructive''), SetLoading False]"
  by (simp add: handleSubmit_def submitTry_def sample_env_def)

text \<open>
  Claim C5, amended. Everything \<^verbatim>\<open>handleSubmit\<close> does, in order. Without a session user:
  no insert, no update, the notice \<^verbatim>\<open>No user found\<close>, no navigation. With a session user
  \<open>u\<close>: exactly one insert of the response row with \<open>u\<close>'s id; if the insert returned an
  error, the notice of that error and nothing more; else exactly one update of the
  onboarding status of \<open>u\<close> to completed, with the time of completion; if the update
  returned an error, the notice of that error and no navigation; else the navigation
  to the dashboard and no notice.
\<close>

theorem submit_calls_in_order:
  "snd (handleSubmit b s) =
     (case getUser_user b of
        None \<Rightarrow>
          [SetLoading True, GetUser,
           Toast ''Error'' (Some ''No user found'') (Some ''destructive''), SetLoading False]
      | Some u \<Rightarrow>
          (case responseError b of
             Some e \<Rightarrow>
               [SetLoading True, GetUser,
                InsertOnboardingResponses (response_of u (answers s)),
                Toast ''Error'' (message e) (Some ''destructive''), SetLoading False]
           | None \<Rightarrow>
               (case statusError b of
                  Some e \<Rightarrow>
                    [SetLoading True, GetUser,
                     InsertOnboardingResponses (response_of u (answers s)),
                     UpdateOnboardingStatus (uid u) True (now b),
                     Toast ''Error'' (message e) (Some ''destructive''), SetLoading False]
                | None \<Rightarrow>
                    [SetLoading True, GetUser,
                     InsertOnboardingResponses (response_of u (answers s)),
                     UpdateOnboardingStatus (uid u) True (now b),
                     Navigate ''/dashboard'', SetLoading False])))"
  by (simp add: handleSubmit_def submitTry_def Let_def split: option.splits)

theorem submit_calls_in_order_witness:
  "snd (handleSubmit (sample_env\<lparr>statusError := Some (JsError (Some ''timeout''))\<rparr>) initial)
     = [SetLoading True, GetUser,
        InsertOnboardingResponses (response_of (SessionUser ''u1'') Map.empty),
        UpdateOnboardingStatus ''u1'' True ''2025-01-01T00:00:00.000Z'',
        Toast ''Error'' (Some ''timeout'') (Some ''destructive''), SetLoading False]"
  using submit_calls_in_order [of "sample_env\<lparr>statusError := Some (JsError (Some ''timeout''))\<rparr>" initial]
  by (simp add: sample_env_def initial_def)

section \<open>Authentication\<close>

text \<open>
  Claim C6. Sign-in, when the sign-in call succeeds and the backend reports the session
  user \<open>u\<close>. If the profile query returns no error and no row, the user gets the notice
  \<^verbatim>\<open>Profile not found. Please contact support.\<close> and nothing navigates. If the profile
  query returns an error, the user gets another notice, \<^verbatim>\<open>Failed to verify user profile\<close>,
  and again nothing navigates.
\<close>

theorem signin_profile_missing:
  assumes "signInError b = None" and "getUser_user b = Some u"
  shows "(profileError b = None \<and> profile_data b = None \<longrightarrow>
            handleAuth b f True
              = [SetLoading True, SignInWithPassword (email f) (password f), GetUser,
                 SelectProfile (uid u), ConsoleError ''Auth error:'',
                 Toast ''Error'' (Some ''Profile not found. Please contact support.'')
                   (Some ''destructive''),
                 SetLoading False])
         \<and> (profileError b \<noteq> None \<longrightarrow>
            handleAuth b f True
              = [SetLoading True, SignInWithPassword (email f) (password f), GetUser,
                 SelectProfile (uid u), ConsoleError ''Error fetching profile:'',
                 ConsoleError ''Auth error:'',
                 Toast ''Error'' (Some ''Failed to verify user profile'') (Some ''destructive''),
                 SetLoading False])
         \<and> (profileError b \<noteq> None \<or> profile_data b = None \<longrightarrow>
              Navigate ''/dashboard'' \<notin> set (handleAuth b f True))"
  using assms
  by (auto simp: handleAuth_def signInFlow_def message_or_def Let_def split: option.splits)

theorem signin_profile_missing_witness:
  "signInError (sample_env\<lparr>profile_data := None\<rparr>) = None
   \<and> getUser_user (sample_env\<lparr>profile_data := None\<rparr>) = Some (SessionUser ''u1'')
   \<and> profileError (sample_env\<lparr>profile_data := None\<rparr>) = None
   \<and> profile_data (sample_env\<lparr>profile_data := None\<rparr>) = None
   \<and> handleAuth (sample_env\<lparr>profile_data := None\<rparr>) sample_form True
       = [SetLoading True, SignInWithPassword ''ada@example.org'' ''secret'', GetUser,
          SelectProfile ''u1'', ConsoleError ''Auth error:'',
          Toast ''Error'' (Some ''Profile not found. Please contact support.'')
            (Some ''destructive''),
          SetLoading False]
   \<and> handleAuth (sample_env\<lparr>profileError := Some (JsError (Some ''connection reset''))\<rparr>)
        sample_form True
       = [SetLoading True, SignInWithPassword ''ada@example.org'' ''secret'', GetUser,
          SelectProfile ''u1'', ConsoleError ''Error fetching profile:'',
          ConsoleError ''Auth error:'',
          Toast ''Error'' (Some ''Failed to verify user profile'') (Some ''destructive''),
          SetLoading False]"
proof -
  let ?b = "sample_env\<lparr>profile_data := None\<rparr>"
  let ?c = "sample_env\<lparr>profileError := Some (JsError (Some ''connection reset''))\<rparr>"
  have h: "signInError ?b = None" "getUser_user ?b = Some (SessionUser ''u1'')"
    "profileError ?b = None" "profile_data ?b = None"
    by (simp_all add: sample_env_def)
  have k: "signInError ?c = None" "getUser_user ?c = Some (SessionUser ''u1'')"
    "profileError ?c \<noteq> None"
    by (simp_all add: sample_env_def)
  have f: "email sample_form = ''ada@example.org''" "password sample_form = ''secret''"
    by (simp_all add: sample_form_def)
  from signin_profile_missing [OF h(1,2), of sample_form] h(3,4)
  have one: "handleAuth ?b sample_form True
       = [SetLoading True, SignInWithPassword ''ada@example.org'' ''secret'', GetUser,
          SelectProfile ''u1'', ConsoleError ''Auth error:'',
          Toast ''Error'' (Some ''Profile not found. Please contact support.'')
            (Some ''destructive''),
          SetLoading False]"
    unfolding f by simp
  from signin_profile_missing [OF k(1,2), of sample_form] k(3)
  have two: "handleAuth ?c sample_form True
       = [SetLoading True, SignInWithPassword ''ada@example.org'' ''secret'', GetUser,
          SelectProfile ''u1'', ConsoleError ''Error fetching profile:'',
          ConsoleError ''Auth error:'',
          Toast ''Error'' (Some ''Failed to verify user profile'') (Some ''destructive''),
          SetLoading False]"
    unfolding f by simp
  from h one two show ?thesis by blast
qed

text \<open>
  Claim C7. Sign-up, when the sign-up call returns an error that the inner \<^verbatim>\<open>catch\<close>
  takes for an existing account (its message contains \<^verbatim>\<open>User already registered\<close> or,
  in lower case, \<^verbatim>\<open>already exists\<close>). The error does not reach the generic handler:
  there is no \<^verbatim>\<open>Auth error:\<close> on the console and no notice titled \<^verbatim>\<open>Error\<close>. The user
  gets the one notice \<^verbatim>\<open>An account with this email already exists. Please sign in
  instead.\<close> (titled \<^verbatim>\<open>Account Exists\<close>, shown in the destructive variant), nothing
  navigates, no further call is made, and the loading flag is reset.
\<close>

theorem signup_existing_account:
  assumes "signUpError b = Some e" and "userAlreadyExists e"
  shows "handleAuth b f False
           = [SetLoading True, SignUp (email f) (password f) (username f) (fullName f),
              Toast ''Account Exists''
                (Some ''An account with this email already exists. Please sign in instead.'')
                (Some ''destructive''),
              SetLoading False]"
  using assms by (simp add: handleAuth_def signUpFlow_def signUpTry_def)

theorem signup_existing_account_witness:
  "signUpError (sample_env\<lparr>signUpError := Some (JsError (Some ''User already registered''))\<rparr>)
     = Some (JsError (Some ''User already registered''))
   \<and> userAlreadyExists (JsError (Some ''User already registered''))
   \<and> handleAuth (sample_env\<lparr>signUpError := Some (JsError (Some ''User already registered''))\<rparr>)
        sample_form False
       = [SetLoading True, SignUp ''ada@example.org'' ''secret'' (Some ''ada'') (Some ''Ada L''),
          Toast ''Account Exists''
            (Some ''An account with this email already exists. Please sign in instead.'')
            (Some ''destructive''),
          SetLoading False]"
proof -
  let ?b = "sample_env\<lparr>signUpError := Some (JsError (Some ''User already registered''))\<rparr>"
  have h1: "signUpError ?b = Some (JsError (Some ''User already registered''))"
    by simp
  have h2: "userAlreadyExists (JsError (Some ''User already registered''))"
    by code_simp
  from signup_existing_account [OF h1 h2, of sample_form] h1 h2
  show ?thesis by (simp add: sample_form_def)
qed

lemma onboarding_failure_not_exists:
  "\<not> userAlreadyExists (JsError (Some ''Failed to initialize onboarding''))"
  by code_simp

text \<open>
  Claim C8. Sign-up, step by step. Each awaited call is followed in the handler only by
  what depends on its answer, so the order of the effects is the order in which the
  calls were made and completed. When the sign-up call returns no error and a user
  \<open>u\<close>, the handler does, in this order: the sign-up call, the delay of 2000 ms, the
  insert of the onboarding status of \<open>u\<close> with \<^verbatim>\<open>is_completed = false\<close>, and then what
  follows from the answer of the insert. The delay and the insert occur only then: a
  run in which either occurs is a run in which the sign-up call has returned no error
  and a user. In every run the sign-up call is the first thing done after the loading
  flag is set.
\<close>

theorem signup_steps_in_order:
  "(\<forall>u. signUpError b = None \<and> signUp_user b = Some u \<longrightarrow>
      handleAuth b f False
        = [SetLoading True, SignUp (email f) (password f) (username f) (fullName f),
           Delay 2000, InsertOnboardingStatus (uid u) False (now b)]
          @ (case onboardingError b of
               None \<Rightarrow>
                 [Toast ''Success''
                    (Some ''Account created successfully! Please check your email to verify your account.'')
                    None,
                  Navigate ''/onboarding'', SetLoading False]
             | Some oe \<Rightarrow>
                 [ConsoleError ''Error creating onboarding status:'',
                  ConsoleError ''Auth error:'',
                  Toast ''Error'' (Some ''Failed to initialize onboarding'')
                    (Some ''destructive''),
                  SetLoading False]))
   \<and> ((\<exists>i c t. InsertOnboardingStatus i c t \<in> set (handleAuth b f False)) \<longrightarrow>
        signUpError b = None \<and> signUp_user b \<noteq> None)
   \<and> ((\<exists>n. Delay n \<in> set (handleAuth b f False)) \<longrightarrow>
        signUpError b = None \<and> signUp_user b \<noteq> None)
   \<and> hd (tl (handleAuth b f False))
        = SignUp (email f) (password f) (username f) (fullName f)"
  using onboarding_failure_not_exists
  by (auto simp: handleAuth_def signUpFlow_def signUpTry_def message_or_def Let_def
      split: option.splits if_splits)

theorem signup_steps_in_order_witness:
  "signUpError sample_env = None \<and> signUp_user sample_env = Some (SessionUser ''u1'')
   \<and> handleAuth sample_env sample_form False
     = [SetLoading True, SignUp ''ada@example.org'' ''secret'' (Some ''ada'') (Some ''Ada L''),
        Delay 2000, InsertOnboardingStatus ''u1'' False ''2025-01-01T00:00:00.000Z'',
        Toast ''Success''
          (Some ''Account created successfully! Please check your email to verify your account.'')
          None,
        Navigate ''/onboarding'', SetLoading False]
   \<and> InsertOnboardingStatus ''u1'' False ''2025-01-01T00:00:00.000Z''
        \<in> set (handleAuth sample_env sample_form False)"
proof -
  have h: "signUpError sample_env = None \<and> signUp_user sample_env = Some (SessionUser ''u1'')"
    by (simp add: sample_env_def)
  have o: "onboardingError sample_env = None" "now sample_env = ''2025-01-01T00:00:00.000Z''"
    by (simp_all add: sample_env_def)
  from signup_steps_in_order [of sample_env sample_form] h
  have tr: "handleAuth sample_env sample_form False
     = [SetLoading True, SignUp ''ada@example.org'' ''secret'' (Some ''ada'') (Some ''Ada L''),
        Delay 2000, InsertOnboardingStatus ''u1'' False ''2025-01-01T00:00:00.000Z'',
        Toast ''Success''
          (Some ''Account created successfully! Please check your email to verify your account.'')
          None,
        Navigate ''/onboarding'', SetLoading False]"
    by (simp add: o sample_form_def)
  from h tr show ?thesis by simp
qed

text \<open>
  Claim C9. Sign-up, when the sign-up call returns no error and no user object: the
  handler makes the sign-up call and resets the loading flag, and that is all. No
  insert, no notice, no console output, no navigation.
\<close>

theorem signup_without_user_object:
  assumes "signUpError b = None" and "signUp_user b = None"
  shows "handleAuth b f False
           = [SetLoading True, SignUp (email f) (password f) (username f) (fullName f),
              SetLoading False]"
  using assms by (simp add: handleAuth_def signUpFlow_def signUpTry_def)

theorem signup_without_user_object_witness:
  "signUpError (sample_env\<lparr>signUp_user := None\<rparr>) = None
   \<and> signUp_user (sample_env\<lparr>signUp_user := None\<rparr>) = None
   \<and> handleAuth (sample_env\<lparr>signUp_user := None\<rparr>) sample_form False
       = [SetLoading True, SignUp ''ada@example.org'' ''secret'' (Some ''ada'') (Some ''Ada L''),
          SetLoading False]"
proof -
  have h: "signUpError (sample_env\<lparr>signUp_user := None\<rparr>) = None"
    "signUp_user (sample_env\<lparr>signUp_user := None\<rparr>) = None"
    by (simp_all add: sample_env_def)
  from signup_without_user_object [OF h, of sample_form] h
  show ?thesis by (simp add: sample_form_def)
qed

end
